theory Spec2Isabelle
  imports Main "HOL-Library.Char_ord"
begin

section \<open>JavaScript values and the built-ins the handlers call\<close>

text \<open>
  The route handlers of \<^verbatim>\<open>routes/main.js\<close> read and overwrite the fields of
  \<^verbatim>\<open>req.body\<close>. A field is absent (\<^verbatim>\<open>undefined\<close>), \<^verbatim>\<open>null\<close> (written by the
  sanitizer) or a primitive string. The urlencoded parser can also deliver an array or an
  object, for a repeated or bracketed key; the specification takes the raw fields as
  strings or absent, and so does this model. A \<open>char\<close> stands for one code unit of the
  JavaScript string; every class the handlers test (\<^verbatim>\<open>[a-zA-Z0-9 ]\<close>, \<^verbatim>\<open>[a-zA-Z0-9_]\<close>,
  the comma) lies in the ASCII range.
\<close>

datatype jsval = Undefined | Null | Str string

datatype error = TypeError

definition thenE :: "error + 'a \<Rightarrow> ('a \<Rightarrow> error + 'b) \<Rightarrow> error + 'b" where
  "thenE m f = (case m of Inl e \<Rightarrow> Inl e | Inr x \<Rightarrow> f x)"

subsection \<open>Character classes and regular expressions\<close>

text \<open>A class is a list of inclusive ranges, as written between the brackets.\<close>

type_synonym cclass = "(char \<times> char) list"

definition in_class :: "cclass \<Rightarrow> char \<Rightarrow> bool" where
  "in_class rs c = list_ex (\<lambda>(lo, hi). lo \<le> c \<and> c \<le> hi) rs"

text \<open>\<^verbatim>\<open>[a-zA-Z0-9 ]\<close>, the characters the sanitizer keeps.\<close>

definition alnum_space :: cclass where
  "alnum_space = [(CHR ''a'', CHR ''z''), (CHR ''A'', CHR ''Z''), (CHR ''0'', CHR ''9''),
                  (CHR '' '', CHR '' '')]"

text \<open>\<^verbatim>\<open>[a-zA-Z0-9_]\<close>, the class of the custom-name pattern.\<close>

definition word_class :: cclass where
  "word_class = [(CHR ''a'', CHR ''z''), (CHR ''A'', CHR ''Z''), (CHR ''0'', CHR ''9''),
                 (CHR ''_'', CHR ''_'')]"

text \<open>\<^verbatim>\<open>[A-Za-z0-9]\<close>, the letters and digits.\<close>

definition alnum_class :: cclass where
  "alnum_class = [(CHR ''A'', CHR ''Z''), (CHR ''a'', CHR ''z''), (CHR ''0'', CHR ''9'')]"

text \<open>
  The pattern syntax the source uses: classes, concatenation, \<^verbatim>\<open>+\<close>, \<^verbatim>\<open>*\<close> and groups
  (a group is its body). \<open>Zero\<close>, \<open>One\<close> and \<open>Alt\<close> only arise as derivatives.
\<close>

datatype rexp =
    Zero
  | One
  | Class cclass
  | Alt rexp rexp
  | Conc rexp rexp
  | Plus rexp
  | Star rexp

fun nullable :: "rexp \<Rightarrow> bool" where
  "nullable Zero = False"
| "nullable One = True"
| "nullable (Class rs) = False"
| "nullable (Alt r s) = (nullable r \<or> nullable s)"
| "nullable (Conc r s) = (nullable r \<and> nullable s)"
| "nullable (Plus r) = nullable r"
| "nullable (Star r) = True"

fun deriv :: "char \<Rightarrow> rexp \<Rightarrow> rexp" where
  "deriv c Zero = Zero"
| "deriv c One = Zero"
| "deriv c (Class rs) = (if in_class rs c then One else Zero)"
| "deriv c (Alt r s) = Alt (deriv c r) (deriv c s)"
| "deriv c (Conc r s) =
     (if nullable r then Alt (Conc (deriv c r) s) (deriv c s) else Conc (deriv c r) s)"
| "deriv c (Plus r) = Conc (deriv c r) (Star r)"
| "deriv c (Star r) = Conc (deriv c r) (Star r)"

text \<open>
  \<^verbatim>\<open>/^r$/.test(s)\<close>: without the \<^verbatim>\<open>m\<close> flag the anchors are the two ends of the
  input, so the test holds when \<open>r\<close> matches the whole of \<open>s\<close>.
\<close>

definition regex_test :: "rexp \<Rightarrow> string \<Rightarrow> bool" where
  "regex_test r s = nullable (foldl (\<lambda>q c. deriv c q) r s)"

text \<open>\<^verbatim>\<open>/^[a-zA-Z0-9_]+([a-zA-Z0-9_]+)*$/\<close>, the pattern of every handler.\<close>

definition validCustomNameRegex :: rexp where
  "validCustomNameRegex = Conc (Plus (Class word_class)) (Star (Plus (Class word_class)))"

text \<open>\<^verbatim>\<open>^[A-Za-z0-9_]+$\<close>, the pattern the specification gives.\<close>

definition spec_name_regex :: rexp where
  "spec_name_regex = Plus (Class [(CHR ''A'', CHR ''Z''), (CHR ''a'', CHR ''z''),
                                  (CHR ''0'', CHR ''9''), (CHR ''_'', CHR ''_'')])"

text \<open>
  \<^verbatim>\<open>s.replace(/[^a-zA-Z0-9 ]/g, '')\<close>: a global replacement of a one-character pattern
  by the empty string deletes exactly the characters that match, here those outside
  the class.
\<close>

definition strip_special :: "string \<Rightarrow> string" where
  "strip_special s = filter (in_class alnum_space) s"

text \<open>
  The method call \<^verbatim>\<open>x.replace(...)\<close> on a field: \<^verbatim>\<open>undefined\<close> and \<^verbatim>\<open>null\<close> have no
  properties, so the call throws.
\<close>

fun js_replace_special :: "jsval \<Rightarrow> error + jsval" where
  "js_replace_special (Str s) = Inr (Str (strip_special s))"
| "js_replace_special Undefined = Inl TypeError"
| "js_replace_special Null = Inl TypeError"

subsection \<open>The language of a pattern\<close>

definition conc :: "string set \<Rightarrow> string set \<Rightarrow> string set" where
  "conc A B = {u @ v |u v. u \<in> A \<and> v \<in> B}"

inductive_set star :: "string set \<Rightarrow> string set" for A :: "string set" where
  star_empty: "[] \<in> star A"
| star_app: "u \<in> A \<Longrightarrow> v \<in> star A \<Longrightarrow> u @ v \<in> star A"

fun lang :: "rexp \<Rightarrow> string set" where
  "lang Zero = {}"
| "lang One = {[]}"
| "lang (Class rs) = {[c] |c. in_class rs c}"
| "lang (Alt r s) = lang r \<union> lang s"
| "lang (Conc r s) = conc (lang r) (lang s)"
| "lang (Plus r) = conc (lang r) (star (lang r))"
| "lang (Star r) = star (lang r)"

subsection \<open>Comparisons, \<^verbatim>\<open>parseInt\<close> and \<^verbatim>\<open>isNaN\<close>\<close>

text \<open>\<^verbatim>\<open>x != null\<close> (loose): false for \<^verbatim>\<open>null\<close> and \<^verbatim>\<open>undefined\<close> alike.\<close>

fun not_nullish :: "jsval \<Rightarrow> bool" where
  "not_nullish (Str s) = True"
| "not_nullish Undefined = False"
| "not_nullish Null = False"

text \<open>\<^verbatim>\<open>typeof x === 'string' || x instanceof String\<close>; no field is a String object.\<close>

fun typeof_string :: "jsval \<Rightarrow> bool" where
  "typeof_string (Str s) = True"
| "typeof_string Undefined = False"
| "typeof_string Null = False"

definition instanceof_String :: "jsval \<Rightarrow> bool" where
  "instanceof_String x = False"

fun js_to_string :: "jsval \<Rightarrow> string" where
  "js_to_string (Str s) = s"
| "js_to_string Undefined = ''undefined''"
| "js_to_string Null = ''null''"

definition js_whitespace :: "char \<Rightarrow> bool" where
  "js_whitespace c = (c \<in> {CHR 0x09, CHR 0x0A, CHR 0x0B, CHR 0x0C, CHR 0x0D, CHR '' '', CHR 0xA0})"

definition digit_val :: "char \<Rightarrow> nat option" where
  "digit_val c =
     (if CHR ''0'' \<le> c \<and> c \<le> CHR ''9'' then Some (of_char c - 48)
      else if CHR ''a'' \<le> c \<and> c \<le> CHR ''z'' then Some (of_char c - 87)
      else if CHR ''A'' \<le> c \<and> c \<le> CHR ''Z'' then Some (of_char c - 55)
      else None)"

definition radix_digit :: "nat \<Rightarrow> char \<Rightarrow> bool" where
  "radix_digit R c = (case digit_val c of Some d \<Rightarrow> d < R | None \<Rightarrow> False)"

definition strip_sign :: "string \<Rightarrow> string" where
  "strip_sign s = (case s of [] \<Rightarrow> [] | c # cs \<Rightarrow> if c = CHR ''+'' \<or> c = CHR ''-'' then cs else s)"

text \<open>
  \<^verbatim>\<open>parseInt(x)\<close> with no radix: leading white space, a sign, an optional \<^verbatim>\<open>0x\<close>, then
  the longest run of digits; \<open>None\<close> is \<^verbatim>\<open>NaN\<close>. The result is the exact integer: the
  handlers only compare it with 0, 1, 100 and 220, and rounding to a double is monotone
  and exact on these.
\<close>

definition parseInt_string :: "string \<Rightarrow> int option" where
  "parseInt_string s =
     (let s1 = dropWhile js_whitespace s;
          neg = (s1 \<noteq> [] \<and> hd s1 = CHR ''-'');
          s2 = strip_sign s1;
          hex = (take 2 s2 = ''0x'' \<or> take 2 s2 = ''0X'');
          R = (if hex then 16 else 10);
          s3 = (if hex then drop 2 s2 else s2);
          z = takeWhile (radix_digit R) s3
      in if z = [] then None
         else Some ((if neg then - 1 else 1) *
                    int (foldl (\<lambda>a c. a * R + the (digit_val c)) 0 z)))"

definition js_parseInt :: "jsval \<Rightarrow> int option" where
  "js_parseInt x = parseInt_string (js_to_string x)"

definition all_digits :: "nat \<Rightarrow> string \<Rightarrow> bool" where
  "all_digits R s = (s \<noteq> [] \<and> list_all (radix_digit R) s)"

definition exponent_part :: "string \<Rightarrow> bool" where
  "exponent_part s =
     (case s of [] \<Rightarrow> False
      | e # r \<Rightarrow> (e = CHR ''e'' \<or> e = CHR ''E'') \<and> all_digits 10 (strip_sign r))"

definition unsigned_decimal :: "string \<Rightarrow> bool" where
  "unsigned_decimal s =
     (s = ''Infinity'' \<or>
      (let ip = takeWhile (radix_digit 10) s; r1 = dropWhile (radix_digit 10) s
       in case r1 of
            [] \<Rightarrow> ip \<noteq> []
          | c # r2 \<Rightarrow>
              if c = CHR ''.'' then
                (let fp = takeWhile (radix_digit 10) r2; r3 = dropWhile (radix_digit 10) r2
                 in (ip \<noteq> [] \<or> fp \<noteq> []) \<and> (r3 = [] \<or> exponent_part r3))
              else ip \<noteq> [] \<and> exponent_part r1))"

definition non_decimal_literal :: "string \<Rightarrow> bool" where
  "non_decimal_literal s =
     (case s of
        z # k # ds \<Rightarrow>
          z = CHR ''0'' \<and>
          ((k = CHR ''b'' \<or> k = CHR ''B'') \<and> all_digits 2 ds \<or>
           (k = CHR ''o'' \<or> k = CHR ''O'') \<and> all_digits 8 ds \<or>
           (k = CHR ''x'' \<or> k = CHR ''X'') \<and> all_digits 16 ds)
      | _ \<Rightarrow> False)"

text \<open>
  The strings that convert to a number other than \<^verbatim>\<open>NaN\<close>: white space around nothing,
  around a binary, octal or hexadecimal literal, or around a signed decimal literal.
\<close>

definition string_numeric_literal :: "string \<Rightarrow> bool" where
  "string_numeric_literal s =
     (let t = rev (dropWhile js_whitespace (rev (dropWhile js_whitespace s)))
      in t = [] \<or> non_decimal_literal t \<or> unsigned_decimal (strip_sign t))"

fun js_isNaN :: "jsval \<Rightarrow> bool" where
  "js_isNaN (Str s) = (\<not> string_numeric_literal s)"
| "js_isNaN Undefined = True"
| "js_isNaN Null = False"

text \<open>\<^verbatim>\<open>s.split(",")\<close>: the pieces between the commas, empty pieces included.\<close>

fun js_split_comma :: "string \<Rightarrow> string list" where
  "js_split_comma [] = [[]]"
| "js_split_comma (c # cs) =
     (if c = CHR '','' then [] # js_split_comma cs
      else (case js_split_comma cs of [] \<Rightarrow> [[c]] | p # ps \<Rightarrow> (c # p) # ps))"

text \<open>\<^verbatim>\<open>xs.join(",")\<close>, the inverse the split is measured against.\<close>

fun join_comma :: "string list \<Rightarrow> string" where
  "join_comma [] = []"
| "join_comma [p] = p"
| "join_comma (p # q # ps) = p @ CHR '','' # join_comma (q # ps)"

text \<open>\<^verbatim>\<open>xs[i]\<close> on an array of strings: \<^verbatim>\<open>undefined\<close> past the end.\<close>

definition element :: "string list \<Rightarrow> nat \<Rightarrow> jsval" where
  "element xs i = (if i < length xs then Str (xs ! i) else Undefined)"

section \<open>The request body and what a handler does\<close>

text \<open>
  The fields of \<^verbatim>\<open>req.body\<close> the handlers read. \<open>batteriesIncluded\<close> is the key that
  line 1081 of the update handler reads; no form of the application sends it.
\<close>

record body =
  device_type_ID :: jsval
  device_type :: jsval
  custom_name :: jsval
  on_off :: jsval
  temperature :: jsval
  volume :: jsval
  batteries_included :: jsval
  open_closed :: jsval
  batteriesIncluded :: jsval

text \<open>
  The statements a handler passes to \<^verbatim>\<open>db.query\<close>, with their parameters. The store
  itself (MySQL) is outside the sources.
\<close>

datatype sql =
    InsertDeviceType jsval jsval jsval jsval jsval jsval
  | SelectLastInsertId
  | InsertDeviceName jsval int
  | SelectAll
  | SelectDevice jsval
  | DeleteDeviceType jsval
  | UpdateCustomName jsval jsval
  | UpdateDeviceFields jsval jsval jsval jsval jsval jsval jsval

fun is_mutation :: "sql \<Rightarrow> bool" where
  "is_mutation (InsertDeviceType dt oo te vo bi oc) = True"
| "is_mutation (InsertDeviceName cn i) = True"
| "is_mutation (DeleteDeviceType i) = True"
| "is_mutation (UpdateCustomName cn i) = True"
| "is_mutation (UpdateDeviceFields dt oo te vo bi oc i) = True"
| "is_mutation SelectLastInsertId = False"
| "is_mutation SelectAll = False"
| "is_mutation (SelectDevice i) = False"

text \<open>
  The calls a handler body makes on \<^verbatim>\<open>res\<close>: \<^verbatim>\<open>res.status(n).json({error: m})\<close>,
  \<^verbatim>\<open>res.statusCode = n; res.send(m)\<close> and \<^verbatim>\<open>res.redirect(p)\<close>.
\<close>

datatype reply = Json nat string | Send nat string | Redirect string

text \<open>
  What the body of a handler does before it returns: its calls on \<^verbatim>\<open>res\<close> and the
  statements it hands to the store, each in order. With no reply here, the page is
  rendered later from the store's answer. The \<^verbatim>\<open>err\<close> branches of the query callbacks
  (a redirect when the store fails) are not part of this record.
\<close>

record outcome =
  replies :: "reply list"
  queries :: "sql list"

definition name_message :: string where
  "name_message = ''Custom name does not fit schema or required length''"

definition fields_message :: string where
  "fields_message =
     ''The data fields are invalid or the custom name does not fit the required schema.''"

subsection \<open>The per-field steps\<close>

text \<open>Lines 91-96: \<^verbatim>\<open>if (x === "") x = null; else x = x.replace(...)\<close>.\<close>

definition blank_to_null :: "jsval \<Rightarrow> error + jsval" where
  "blank_to_null x = (if x = Str [] then Inr Null else js_replace_special x)"

text \<open>Lines 1021-1026: \<^verbatim>\<open>if (x === undefined) x = null; else x = x.replace(...)\<close>.\<close>

definition absent_to_null :: "jsval \<Rightarrow> error + jsval" where
  "absent_to_null x = (if x = Undefined then Inr Null else js_replace_special x)"

text \<open>The conditions under which \<^verbatim>\<open>isValid\<close> is set to false (lines 142-164).\<close>

definition type_rejected :: "jsval \<Rightarrow> bool" where
  "type_rejected x = (not_nullish x \<and> \<not> (typeof_string x \<or> instanceof_String x))"

definition flag_rejected :: "jsval \<Rightarrow> bool" where
  "flag_rejected x =
     (not_nullish x \<and> \<not> (typeof_string x \<or> instanceof_String x) \<and>
      (\<not> js_isNaN x \<and> js_parseInt x = Some 0 \<or> js_parseInt x = Some 1))"

definition volume_rejected :: "jsval \<Rightarrow> bool" where
  "volume_rejected x =
     (not_nullish x \<and> \<not> (typeof_string x \<or> instanceof_String x) \<and>
      (\<not> js_isNaN x \<and> (case js_parseInt x of Some n \<Rightarrow> n \<ge> 0 \<and> n \<le> 100 | None \<Rightarrow> False)))"

definition temperature_rejected :: "jsval \<Rightarrow> bool" where
  "temperature_rejected x =
     (not_nullish x \<and> \<not> (typeof_string x \<or> instanceof_String x) \<and>
      (\<not> js_isNaN x \<and> (case js_parseInt x of Some n \<Rightarrow> n \<ge> 1 \<and> n \<le> 220 | None \<Rightarrow> False)))"

text \<open>Line 1081, where \<^verbatim>\<open>isNaN\<close> is given \<^verbatim>\<open>req.body.batteriesIncluded\<close>.\<close>

definition update_result_batteries_rejected :: "body \<Rightarrow> bool" where
  "update_result_batteries_rejected r =
     (not_nullish (batteries_included r) \<and>
      \<not> (typeof_string (batteries_included r) \<or> instanceof_String (batteries_included r)) \<and>
      (\<not> js_isNaN (batteriesIncluded r) \<and> js_parseInt (batteries_included r) = Some 0 \<or>
       js_parseInt (batteries_included r) = Some 1))"

section \<open>POST /add-result (lines 79-251)\<close>

definition add_result_sanitize :: "body \<Rightarrow> error + body" where
  "add_result_sanitize b =
     thenE (js_replace_special (device_type b)) (\<lambda>dt.
     thenE (js_replace_special (custom_name b)) (\<lambda>cn.
     thenE (blank_to_null (on_off b)) (\<lambda>oo.
     thenE (blank_to_null (temperature b)) (\<lambda>te.
     thenE (blank_to_null (volume b)) (\<lambda>vo.
     thenE (blank_to_null (batteries_included b)) (\<lambda>bi.
     thenE (blank_to_null (open_closed b)) (\<lambda>oc.
     Inr (b\<lparr>device_type := dt, custom_name := cn, on_off := oo, temperature := te,
             volume := vo, batteries_included := bi, open_closed := oc\<rparr>))))))))"

definition add_result_name_rejected :: "string \<Rightarrow> bool" where
  "add_result_name_rejected cn =
     (\<not> regex_test validCustomNameRegex cn \<or> length cn < 5 \<or> length cn > 16)"

definition add_result_isValid :: "body \<Rightarrow> bool" where
  "add_result_isValid r =
     (\<not> (type_rejected (device_type r) \<or> flag_rejected (on_off r) \<or>
         flag_rejected (batteries_included r) \<or> flag_rejected (open_closed r) \<or>
         volume_rejected (volume r) \<or> temperature_rejected (temperature r)))"

text \<open>
  The handler after sanitization. \<open>last_id\<close> is the store's answer to
  \<^verbatim>\<open>SELECT LAST_INSERT_ID()\<close>, \<open>None\<close> when that query fails: the name is inserted
  from inside its callback, which needs the answer.
\<close>

definition add_result_checked :: "body \<Rightarrow> int option \<Rightarrow> error + outcome" where
  "add_result_checked r last_id =
     (case custom_name r of
        Str cn \<Rightarrow>
          if add_result_name_rejected cn then
            Inr \<lparr>replies = [Json 400 name_message], queries = []\<rparr>
          else if \<not> add_result_isValid r then
            Inr \<lparr>replies = [Json 400 fields_message], queries = []\<rparr>
          else Inr \<lparr>replies = [], queries = [InsertDeviceType (device_type r) (on_off r) (temperature r) (volume r)
                       (batteries_included r) (open_closed r),
                     SelectLastInsertId] @
                    (case last_id of None \<Rightarrow> []
                     | Some i \<Rightarrow> [InsertDeviceName (custom_name r) i])\<rparr>
      | _ \<Rightarrow> Inl TypeError)"

definition add_result :: "body \<Rightarrow> int option \<Rightarrow> error + outcome" where
  "add_result b last_id = thenE (add_result_sanitize b) (\<lambda>r. add_result_checked r last_id)"

section \<open>POST /confirm-delete (lines 315-488)\<close>

definition confirm_delete_parse :: "body \<Rightarrow> error + body" where
  "confirm_delete_parse b =
     (case device_type_ID b of
        Str inputFields \<Rightarrow>
          if CHR '','' \<in> set inputFields then
            (let inputDeviceFields = js_split_comma inputFields
             in Inr (b\<lparr>device_type_ID := element inputDeviceFields 0,
                       custom_name := element inputDeviceFields 1,
                       device_type := element inputDeviceFields 2,
                       on_off := element inputDeviceFields 3,
                       batteries_included := element inputDeviceFields 4,
                       open_closed := element inputDeviceFields 5,
                       volume := element inputDeviceFields 6,
                       temperature := element inputDeviceFields 7\<rparr>))
          else Inr b
      | _ \<Rightarrow> Inl TypeError)"

definition confirm_delete_sanitize :: "body \<Rightarrow> error + body" where
  "confirm_delete_sanitize b =
     thenE (js_replace_special (device_type b)) (\<lambda>dt.
     thenE (js_replace_special (custom_name b)) (\<lambda>cn.
     thenE (blank_to_null (on_off b)) (\<lambda>oo.
     thenE (blank_to_null (temperature b)) (\<lambda>te.
     thenE (blank_to_null (volume b)) (\<lambda>vo.
     thenE (blank_to_null (batteries_included b)) (\<lambda>bi.
     thenE (blank_to_null (open_closed b)) (\<lambda>oc.
     Inr (b\<lparr>device_type := dt, custom_name := cn, on_off := oo, temperature := te,
             volume := vo, batteries_included := bi, open_closed := oc\<rparr>))))))))"

definition confirm_delete_name_rejected :: "string \<Rightarrow> bool" where
  "confirm_delete_name_rejected cn =
     (\<not> regex_test validCustomNameRegex cn \<or> length cn < 5 \<or> length cn > 16)"

definition confirm_delete_isValid :: "body \<Rightarrow> bool" where
  "confirm_delete_isValid r =
     (\<not> (type_rejected (device_type r) \<or> flag_rejected (on_off r) \<or>
         flag_rejected (batteries_included r) \<or> flag_rejected (open_closed r) \<or>
         volume_rejected (volume r) \<or> temperature_rejected (temperature r)))"

definition confirm_delete_checked :: "body \<Rightarrow> error + outcome" where
  "confirm_delete_checked r =
     (case custom_name r of
        Str cn \<Rightarrow>
          if confirm_delete_name_rejected cn then
            Inr \<lparr>replies = [Json 400 name_message], queries = []\<rparr>
          else if \<not> confirm_delete_isValid r then
            Inr \<lparr>replies = [Json 400 fields_message], queries = []\<rparr>
          else Inr \<lparr>replies = [], queries = [SelectAll, SelectDevice (device_type_ID r)]\<rparr>
      | _ \<Rightarrow> Inl TypeError)"

definition confirm_delete :: "body \<Rightarrow> error + outcome" where
  "confirm_delete b =
     thenE (confirm_delete_parse b) (\<lambda>p.
       if device_type_ID p = Undefined then
         Inr \<lparr>replies = [Redirect ''index.html''], queries = []\<rparr>
       else thenE (confirm_delete_sanitize p) confirm_delete_checked)"

section \<open>POST /delete-result (lines 507-666)\<close>

definition delete_result_parse :: "body \<Rightarrow> error + body" where
  "delete_result_parse b =
     (case device_type_ID b of
        Str inputFields \<Rightarrow>
          if CHR '','' \<in> set inputFields then
            (let inputDeviceFields = js_split_comma inputFields
             in Inr (b\<lparr>device_type_ID := element inputDeviceFields 0,
                       custom_name := element inputDeviceFields 1,
                       device_type := element inputDeviceFields 2,
                       on_off := element inputDeviceFields 3,
                       batteries_included := element inputDeviceFields 4,
                       open_closed := element inputDeviceFields 5,
                       volume := element inputDeviceFields 6,
                       temperature := element inputDeviceFields 7\<rparr>))
          else Inr b
      | _ \<Rightarrow> Inl TypeError)"

definition delete_result_sanitize :: "body \<Rightarrow> error + body" where
  "delete_result_sanitize b =
     thenE (js_replace_special (device_type b)) (\<lambda>dt.
     thenE (js_replace_special (custom_name b)) (\<lambda>cn.
     thenE (blank_to_null (on_off b)) (\<lambda>oo.
     thenE (blank_to_null (temperature b)) (\<lambda>te.
     thenE (blank_to_null (volume b)) (\<lambda>vo.
     thenE (blank_to_null (batteries_included b)) (\<lambda>bi.
     thenE (blank_to_null (open_closed b)) (\<lambda>oc.
     Inr (b\<lparr>device_type := dt, custom_name := cn, on_off := oo, temperature := te,
             volume := vo, batteries_included := bi, open_closed := oc\<rparr>))))))))"

definition delete_result_name_rejected :: "string \<Rightarrow> bool" where
  "delete_result_name_rejected cn =
     (\<not> regex_test validCustomNameRegex cn \<or> length cn < 5 \<or> length cn > 16)"

definition delete_result_isValid :: "body \<Rightarrow> bool" where
  "delete_result_isValid r =
     (\<not> (type_rejected (device_type r) \<or> flag_rejected (on_off r) \<or>
         flag_rejected (batteries_included r) \<or> flag_rejected (open_closed r) \<or>
         volume_rejected (volume r) \<or> temperature_rejected (temperature r)))"

definition delete_result_checked :: "body \<Rightarrow> error + outcome" where
  "delete_result_checked r =
     (case custom_name r of
        Str cn \<Rightarrow>
          if delete_result_name_rejected cn then
            Inr \<lparr>replies = [Json 400 name_message], queries = []\<rparr>
          else if \<not> delete_result_isValid r then
            Inr \<lparr>replies = [Json 400 fields_message], queries = []\<rparr>
          else Inr \<lparr>replies = [], queries = [DeleteDeviceType (device_type_ID r), SelectAll]\<rparr>
      | _ \<Rightarrow> Inl TypeError)"

definition delete_result :: "body \<Rightarrow> error + outcome" where
  "delete_result b =
     thenE (delete_result_parse b) (\<lambda>p.
       if device_type_ID p = Undefined then
         Inr \<lparr>replies = [Redirect ''index.html''], queries = []\<rparr>
       else thenE (delete_result_sanitize p) delete_result_checked)"

section \<open>POST /retrieve-update-record (lines 792-992)\<close>

definition retrieve_update_record_parse :: "body \<Rightarrow> error + body" where
  "retrieve_update_record_parse b =
     (case device_type_ID b of
        Str inputFields \<Rightarrow>
          if CHR '','' \<in> set inputFields then
            (let inputDeviceFields = js_split_comma inputFields
             in Inr (b\<lparr>device_type_ID := element inputDeviceFields 0,
                       custom_name := element inputDeviceFields 1,
                       device_type := element inputDeviceFields 2,
                       on_off := element inputDeviceFields 3,
                       batteries_included := element inputDeviceFields 4,
                       open_closed := element inputDeviceFields 5,
                       volume := element inputDeviceFields 6,
                       temperature := element inputDeviceFields 7\<rparr>))
          else Inr b
      | _ \<Rightarrow> Inl TypeError)"

definition retrieve_update_record_sanitize :: "body \<Rightarrow> error + body" where
  "retrieve_update_record_sanitize b =
     thenE (js_replace_special (device_type b)) (\<lambda>dt.
     thenE (js_replace_special (custom_name b)) (\<lambda>cn.
     thenE (blank_to_null (on_off b)) (\<lambda>oo.
     thenE (blank_to_null (temperature b)) (\<lambda>te.
     thenE (blank_to_null (volume b)) (\<lambda>vo.
     thenE (blank_to_null (batteries_included b)) (\<lambda>bi.
     thenE (blank_to_null (open_closed b)) (\<lambda>oc.
     Inr (b\<lparr>device_type := dt, custom_name := cn, on_off := oo, temperature := te,
             volume := vo, batteries_included := bi, open_closed := oc\<rparr>))))))))"

definition retrieve_update_record_name_rejected :: "string \<Rightarrow> bool" where
  "retrieve_update_record_name_rejected cn =
     (\<not> regex_test validCustomNameRegex cn \<or> length cn < 5 \<or> length cn > 16)"

definition retrieve_update_record_isValid :: "body \<Rightarrow> bool" where
  "retrieve_update_record_isValid r =
     (\<not> (type_rejected (device_type r) \<or> flag_rejected (on_off r) \<or>
         flag_rejected (batteries_included r) \<or> flag_rejected (open_closed r) \<or>
         volume_rejected (volume r) \<or> temperature_rejected (temperature r)))"

text \<open>
  Lines 868-871 set the status to 500 and send the message, and do not return: the
  handler goes on to the field checks and the queries.
\<close>

definition retrieve_update_record_checked :: "body \<Rightarrow> error + outcome" where
  "retrieve_update_record_checked r =
     (case custom_name r of
        Str cn \<Rightarrow>
          (let sent = (if retrieve_update_record_name_rejected cn then [Send 500 name_message] else [])
           in if \<not> retrieve_update_record_isValid r then
                Inr \<lparr>replies = sent @ [Json 400 fields_message], queries = []\<rparr>
              else Inr \<lparr>replies = sent, queries = [SelectAll, SelectDevice (device_type_ID r)]\<rparr>)
      | _ \<Rightarrow> Inl TypeError)"

definition retrieve_update_record :: "body \<Rightarrow> error + outcome" where
  "retrieve_update_record b =
     thenE (retrieve_update_record_parse b) (\<lambda>p.
       if device_type_ID p = Undefined then
         Inr \<lparr>replies = [Redirect ''index.html''], queries = []\<rparr>
       else thenE (retrieve_update_record_sanitize p) retrieve_update_record_checked)"

section \<open>POST /update-result (lines 1009-1226)\<close>

definition update_result_sanitize :: "body \<Rightarrow> error + body" where
  "update_result_sanitize b =
     thenE (js_replace_special (device_type b)) (\<lambda>dt.
     thenE (js_replace_special (custom_name b)) (\<lambda>cn.
     thenE (absent_to_null (on_off b)) (\<lambda>oo.
     thenE (absent_to_null (temperature b)) (\<lambda>te.
     thenE (absent_to_null (volume b)) (\<lambda>vo.
     thenE (absent_to_null (batteries_included b)) (\<lambda>bi.
     thenE (absent_to_null (open_closed b)) (\<lambda>oc.
     Inr (b\<lparr>device_type := dt, custom_name := cn, on_off := oo, temperature := te,
             volume := vo, batteries_included := bi, open_closed := oc\<rparr>))))))))"

definition update_result_name_rejected :: "string \<Rightarrow> bool" where
  "update_result_name_rejected cn =
     (\<not> regex_test validCustomNameRegex cn \<or> length cn < 5 \<or> length cn > 16)"

definition update_result_isValid :: "body \<Rightarrow> bool" where
  "update_result_isValid r =
     (\<not> (type_rejected (device_type r) \<or> flag_rejected (on_off r) \<or>
         update_result_batteries_rejected r \<or> flag_rejected (open_closed r) \<or>
         volume_rejected (volume r) \<or> temperature_rejected (temperature r)))"

text \<open>
  Lines 1064-1067 send the 500 and do not return. Lines 1101-1110 replace an array by
  its first element; a sanitized field is never an array, so they change nothing.
\<close>

definition update_result_checked :: "body \<Rightarrow> error + outcome" where
  "update_result_checked r =
     (case custom_name r of
        Str cn \<Rightarrow>
          (let sent = (if update_result_name_rejected cn then [Send 500 name_message] else [])
           in if \<not> update_result_isValid r then
                Inr \<lparr>replies = sent @ [Json 400 fields_message], queries = []\<rparr>
              else Inr \<lparr>replies = sent, queries = [UpdateCustomName (custom_name r) (device_type_ID r),
                         UpdateDeviceFields (device_type r) (on_off r) (temperature r)
                           (volume r) (batteries_included r) (open_closed r)
                           (device_type_ID r),
                         SelectAll]\<rparr>)
      | _ \<Rightarrow> Inl TypeError)"

definition update_result :: "body \<Rightarrow> error + outcome" where
  "update_result b = thenE (update_result_sanitize b) update_result_checked"

section \<open>GET /display-status (lines 683-775)\<close>

text \<open>A column of a row the store returns: \<^verbatim>\<open>null\<close>, a number or a string.\<close>

datatype column = SqlNull | SqlNum int | SqlText string

record device_row =
  Device_Type_ID :: column
  Device_Type :: column
  On_Off :: column
  Temperature :: column
  Volume :: column
  Batteries_Included :: column
  Open_Closed :: column
  Custom_Name :: column

text \<open>A display state starts as the number 0 and may become a boolean.\<close>

datatype jsstate = JNum int | JBool bool

record status_view =
  deviceStatus :: "device_row list"
  deviceList :: "device_row list"
  validOnOff :: bool
  validTemperature :: bool
  validVolume :: bool
  validBatteriesIncluded :: bool
  validOpenClosed :: bool
  deviceOn :: jsstate
  deviceOpen :: jsstate
  deviceBatteries :: jsstate

datatype page = RedirectTo string | Render string status_view

definition display_status_queries :: "jsval \<Rightarrow> sql list" where
  "display_status_queries deviceTypeID = [SelectAll, SelectDevice deviceTypeID]"

text \<open>
  The callback of the second query (lines 727-774): \<open>err\<close> tells whether the store
  failed, \<open>result\<close> is the list of rows it returned and \<open>selectAll\<close> the answer of the
  first query. Reading a column of \<^verbatim>\<open>result[0]\<close> throws when there is no row.
\<close>

definition display_status :: "bool \<Rightarrow> device_row list \<Rightarrow> device_row list \<Rightarrow> error + page" where
  "display_status err selectAll result =
     (if err then Inr (RedirectTo ''index.html'')
      else case result of
        [] \<Rightarrow> Inl TypeError
      | r0 # _ \<Rightarrow>
          (let valid_on_off = (On_Off r0 \<noteq> SqlNull);
               valid_temperature = (Temperature r0 \<noteq> SqlNull);
               valid_volume = (Volume r0 \<noteq> SqlNull);
               valid_batteries_included = (Batteries_Included r0 \<noteq> SqlNull);
               valid_open_closed = (Open_Closed r0 \<noteq> SqlNull);
               deviceOnState = (if valid_on_off then JBool (On_Off r0 = SqlNum 1) else JNum 0);
               deviceOpenState =
                 (if valid_open_closed then JBool (Open_Closed r0 = SqlNum 1) else JNum 0);
               deviceBatteriesState =
                 (if valid_batteries_included then JBool (Batteries_Included r0 = SqlNum 1)
                  else JNum 0)
           in Inr (Render ''devicestatus.ejs''
                \<lparr>deviceStatus = result, deviceList = selectAll,
                 validOnOff = valid_on_off, validTemperature = valid_temperature,
                 validVolume = valid_volume,
                 validBatteriesIncluded = valid_batteries_included,
                 validOpenClosed = valid_open_closed,
                 deviceOn = deviceOnState, deviceOpen = deviceOpenState,
                 deviceBatteries = deviceBatteriesState\<rparr>)))"


section \<open>Patterns and their languages\<close>

lemma conc_iff: "w \<in> conc A B \<longleftrightarrow> (\<exists>u v. w = u @ v \<and> u \<in> A \<and> v \<in> B)"
  by (auto simp: conc_def)

lemma Nil_in_conc: "[] \<in> conc A B \<longleftrightarrow> [] \<in> A \<and> [] \<in> B"
  by (auto simp: conc_def)

lemma Cons_in_conc:
  "c # w \<in> conc A B \<longleftrightarrow>
     ([] \<in> A \<and> c # w \<in> B) \<or> (\<exists>u v. w = u @ v \<and> c # u \<in> A \<and> v \<in> B)"
  by (auto simp: conc_def Cons_eq_append_conv)

lemma Cons_in_star:
  "c # w \<in> star A \<longleftrightarrow> (\<exists>u v. w = u @ v \<and> c # u \<in> A \<and> v \<in> star A)"
proof
  assume "c # w \<in> star A"
  then show "\<exists>u v. w = u @ v \<and> c # u \<in> A \<and> v \<in> star A"
  proof (induction "c # w" rule: star.induct)
    case (star_app u v)
    then show ?case by (cases u) auto
  qed
next
  assume "\<exists>u v. w = u @ v \<and> c # u \<in> A \<and> v \<in> star A"
  then obtain u v where "w = u @ v" "c # u \<in> A" "v \<in> star A" by blast
  then show "c # w \<in> star A" using star_app [of "c # u" A v] by simp
qed

lemma nullable_lang: "nullable r \<longleftrightarrow> [] \<in> lang r"
  by (induction r) (auto simp: Nil_in_conc intro: star_empty)

lemma deriv_lang: "w \<in> lang (deriv c r) \<longleftrightarrow> c # w \<in> lang r"
proof (induction r arbitrary: w)
  case (Conc r s)
  have "w \<in> lang (deriv c (Conc r s)) \<longleftrightarrow>
          (\<exists>u v. w = u @ v \<and> c # u \<in> lang r \<and> v \<in> lang s) \<or> (nullable r \<and> c # w \<in> lang s)"
    by (auto simp: conc_iff Conc.IH)
  also have "\<dots> \<longleftrightarrow> c # w \<in> conc (lang r) (lang s)"
    unfolding Cons_in_conc nullable_lang by blast
  finally show ?case by simp
next
  case (Plus r)
  have "w \<in> lang (deriv c (Plus r)) \<longleftrightarrow>
          (\<exists>u v. w = u @ v \<and> c # u \<in> lang r \<and> v \<in> star (lang r))"
    by (auto simp: conc_iff Plus.IH)
  also have "\<dots> \<longleftrightarrow> c # w \<in> conc (lang r) (star (lang r))"
    unfolding Cons_in_conc Cons_in_star by blast
  finally show ?case by simp
next
  case (Star r)
  have "w \<in> lang (deriv c (Star r)) \<longleftrightarrow>
          (\<exists>u v. w = u @ v \<and> c # u \<in> lang r \<and> v \<in> star (lang r))"
    by (auto simp: conc_iff Star.IH)
  then show ?case by (simp add: Cons_in_star)
qed auto

text \<open>The derivative matcher decides membership in the language of the pattern.\<close>

lemma regex_test_lang: "regex_test r s \<longleftrightarrow> s \<in> lang r"
  unfolding regex_test_def
  by (induction s arbitrary: r) (simp_all add: nullable_lang deriv_lang)

lemma star_class: "star {[c] |c. in_class rs c} = {s. \<forall>c\<in>set s. in_class rs c}"
proof (rule set_eqI, rule iffI)
  fix s assume "s \<in> star {[c] |c. in_class rs c}"
  then show "s \<in> {s. \<forall>c\<in>set s. in_class rs c}"
    by (induction rule: star.induct) auto
next
  fix s assume "s \<in> {s. \<forall>c\<in>set s. in_class rs c}"
  then show "s \<in> star {[c] |c. in_class rs c}"
  proof (induction s)
    case Nil
    show ?case by (rule star_empty)
  next
    case (Cons c s)
    then have "[c] \<in> {[c] |c. in_class rs c}" and "s \<in> star {[c] |c. in_class rs c}"
      by auto
    then show ?case using star_app [of "[c]" "{[c] |c. in_class rs c}" s] by simp
  qed
qed

lemma lang_plus_class:
  "lang (Plus (Class rs)) = {s. s \<noteq> [] \<and> (\<forall>c\<in>set s. in_class rs c)}"
proof (rule set_eqI)
  fix s
  show "s \<in> lang (Plus (Class rs)) \<longleftrightarrow> s \<in> {s. s \<noteq> [] \<and> (\<forall>c\<in>set s. in_class rs c)}"
    by (cases s) (auto simp: star_class Nil_in_conc Cons_in_conc)
qed

lemma star_nonempty_words:
  "v \<in> star {s. s \<noteq> [] \<and> (\<forall>c\<in>set s. P c)} \<Longrightarrow> \<forall>c\<in>set v. P c"
  by (induction rule: star.induct) auto

lemma lang_validCustomNameRegex:
  "lang validCustomNameRegex = {s. s \<noteq> [] \<and> (\<forall>c\<in>set s. in_class word_class c)}"
proof (rule set_eqI, rule iffI)
  fix s assume "s \<in> lang validCustomNameRegex"
  then obtain u v where s: "s = u @ v" and u: "u \<noteq> []" "\<forall>c\<in>set u. in_class word_class c"
    and v: "v \<in> star {s. s \<noteq> [] \<and> (\<forall>c\<in>set s. in_class word_class c)}"
    unfolding validCustomNameRegex_def lang.simps(5,7) lang_plus_class conc_iff by blast
  from v have "\<forall>c\<in>set v. in_class word_class c" by (rule star_nonempty_words)
  with s u show "s \<in> {s. s \<noteq> [] \<and> (\<forall>c\<in>set s. in_class word_class c)}" by auto
next
  fix s assume "s \<in> {s. s \<noteq> [] \<and> (\<forall>c\<in>set s. in_class word_class c)}"
  then have "s \<in> lang (Plus (Class word_class))" by (simp only: lang_plus_class)
  moreover have "[] \<in> star (lang (Plus (Class word_class)))" by (rule star_empty)
  ultimately have "s @ [] \<in> conc (lang (Plus (Class word_class))) (star (lang (Plus (Class word_class))))"
    unfolding conc_iff by blast
  then show "s \<in> lang validCustomNameRegex" by (simp add: validCustomNameRegex_def)
qed

text \<open>The handlers' pattern accepts the non-empty strings of word characters.\<close>

lemma validCustomNameRegex_iff:
  "regex_test validCustomNameRegex s \<longleftrightarrow> s \<noteq> [] \<and> (\<forall>c\<in>set s. in_class word_class c)"
  by (simp add: regex_test_lang lang_validCustomNameRegex)

lemma spec_class_eq:
  "in_class [(CHR ''A'', CHR ''Z''), (CHR ''a'', CHR ''z''), (CHR ''0'', CHR ''9''),
             (CHR ''_'', CHR ''_'')] c = in_class word_class c"
  by (auto simp: in_class_def word_class_def)

lemma spec_name_regex_iff:
  "regex_test spec_name_regex s \<longleftrightarrow> s \<noteq> [] \<and> (\<forall>c\<in>set s. in_class word_class c)"
  unfolding regex_test_lang spec_name_regex_def lang_plus_class by (simp add: spec_class_eq)

lemma strip_special_chars: "c \<in> set (strip_special s) \<Longrightarrow> in_class alnum_space c"
  by (simp add: strip_special_def)

lemma strip_special_twice: "strip_special (strip_special s) = strip_special s"
  by (simp add: strip_special_def)

section \<open>The field checks never fire on a sanitized request\<close>

lemma type_rejected_never: "\<not> type_rejected x"
  by (cases x) (simp_all add: type_rejected_def)

lemma flag_rejected_never: "\<not> flag_rejected x"
  by (cases x) (simp_all add: flag_rejected_def)

lemma volume_rejected_never: "\<not> volume_rejected x"
  by (cases x) (simp_all add: volume_rejected_def)

lemma temperature_rejected_never: "\<not> temperature_rejected x"
  by (cases x) (simp_all add: temperature_rejected_def)

lemma update_result_batteries_rejected_never: "\<not> update_result_batteries_rejected r"
  by (cases "batteries_included r") (simp_all add: update_result_batteries_rejected_def)

lemmas rejected_never =
  type_rejected_never flag_rejected_never volume_rejected_never temperature_rejected_never
  update_result_batteries_rejected_never

lemma add_result_isValid_always: "add_result_isValid r"
  by (simp add: add_result_isValid_def rejected_never)

lemma confirm_delete_isValid_always: "confirm_delete_isValid r"
  by (simp add: confirm_delete_isValid_def rejected_never)

lemma delete_result_isValid_always: "delete_result_isValid r"
  by (simp add: delete_result_isValid_def rejected_never)

lemma retrieve_update_record_isValid_always: "retrieve_update_record_isValid r"
  by (simp add: retrieve_update_record_isValid_def rejected_never)

lemma update_result_isValid_always: "update_result_isValid r"
  by (simp add: update_result_isValid_def rejected_never)

lemmas isValid_always =
  add_result_isValid_always confirm_delete_isValid_always delete_result_isValid_always
  retrieve_update_record_isValid_always update_result_isValid_always

section \<open>The create handler\<close>

lemma js_replace_special_Inr:
  "js_replace_special x = Inr y \<Longrightarrow> \<exists>s. x = Str s \<and> y = Str (strip_special s)"
  by (cases x) auto

lemma add_result_sanitize_name:
  assumes "add_result_sanitize b = Inr r"
  shows "\<exists>s. custom_name b = Str s \<and> custom_name r = Str (strip_special s)"
proof -
  from assms obtain cn where cn: "js_replace_special (custom_name b) = Inr cn"
    and r: "custom_name r = cn"
    by (auto simp: add_result_sanitize_def thenE_def split: sum.splits)
  from js_replace_special_Inr [OF cn] r show ?thesis by auto
qed

lemma add_result_checked_Str:
  "custom_name r = Str cn \<Longrightarrow>
   add_result_checked r last_id =
     (if add_result_name_rejected cn then
        Inr \<lparr>replies = [Json 400 name_message], queries = []\<rparr>
      else Inr \<lparr>replies = [],
                queries = [InsertDeviceType (device_type r) (on_off r) (temperature r) (volume r)
                             (batteries_included r) (open_closed r),
                           SelectLastInsertId] @
                          (case last_id of None \<Rightarrow> []
                           | Some i \<Rightarrow> [InsertDeviceName (Str cn) i])\<rparr>)"
  by (simp add: add_result_checked_def add_result_isValid_always split: option.splits)

lemma name_rejected_spec:
  "add_result_name_rejected cn \<longleftrightarrow>
     \<not> regex_test spec_name_regex cn \<or> length cn < 5 \<or> length cn > 16"
  "confirm_delete_name_rejected cn \<longleftrightarrow>
     \<not> regex_test spec_name_regex cn \<or> length cn < 5 \<or> length cn > 16"
  "delete_result_name_rejected cn \<longleftrightarrow>
     \<not> regex_test spec_name_regex cn \<or> length cn < 5 \<or> length cn > 16"
  "retrieve_update_record_name_rejected cn \<longleftrightarrow>
     \<not> regex_test spec_name_regex cn \<or> length cn < 5 \<or> length cn > 16"
  "update_result_name_rejected cn \<longleftrightarrow>
     \<not> regex_test spec_name_regex cn \<or> length cn < 5 \<or> length cn > 16"
  by (simp_all add: add_result_name_rejected_def confirm_delete_name_rejected_def
      delete_result_name_rejected_def retrieve_update_record_name_rejected_def
      update_result_name_rejected_def validCustomNameRegex_iff spec_name_regex_iff)

text \<open>
  C3. For a sanitized request (its custom name is a string) the custom-name check of
  the create route, and of the confirm-delete and delete routes alike, answers 400 with
  the schema/length message and issues no statement exactly when the custom name does
  not match \<^verbatim>\<open>^[A-Za-z0-9_]+$\<close> or its length is outside 5..16. The handlers' pattern
  and \<^verbatim>\<open>^[A-Za-z0-9_]+$\<close> accept the same strings. A create request whose custom name
  is \<^verbatim>\<open>ab\<close> is answered 400 and hands no statement to the store.
\<close>

theorem custom_name_check_exact:
  assumes "custom_name r = Str cn"
  shows "(let bad = (\<not> regex_test spec_name_regex cn \<or> length cn < 5 \<or> length cn > 16);
              reject = Inr \<lparr>replies = [Json 400 name_message], queries = []\<rparr>
          in (add_result_checked r last_id = reject) = bad \<and>
             (confirm_delete_checked r = reject) = bad \<and>
             (delete_result_checked r = reject) = bad) \<and>
         regex_test validCustomNameRegex s = regex_test spec_name_regex s \<and>
         add_result \<lparr>device_type_ID = i, device_type = Str dt, custom_name = Str ''ab'',
               on_off = Str oo, temperature = Str te, volume = Str vo,
               batteries_included = Str bi, open_closed = Str oc, batteriesIncluded = x\<rparr> lid =
           Inr \<lparr>replies = [Json 400 name_message], queries = []\<rparr>"
proof (intro conjI)
  show "let bad = (\<not> regex_test spec_name_regex cn \<or> length cn < 5 \<or> length cn > 16);
              reject = Inr \<lparr>replies = [Json 400 name_message], queries = []\<rparr>
          in (add_result_checked r last_id = reject) = bad \<and>
             (confirm_delete_checked r = reject) = bad \<and>
             (delete_result_checked r = reject) = bad"
    using assms
    by (simp add: Let_def add_result_checked_def confirm_delete_checked_def
        delete_result_checked_def isValid_always name_rejected_spec)
next
  show "regex_test validCustomNameRegex s = regex_test spec_name_regex s"
    by (simp add: validCustomNameRegex_iff spec_name_regex_iff)
next
  have ab: "strip_special ''ab'' = ''ab''"
    by (simp add: strip_special_def in_class_def alnum_space_def)
  show "add_result \<lparr>device_type_ID = i, device_type = Str dt, custom_name = Str ''ab'',
               on_off = Str oo, temperature = Str te, volume = Str vo,
               batteries_included = Str bi, open_closed = Str oc, batteriesIncluded = x\<rparr> lid =
     Inr \<lparr>replies = [Json 400 name_message], queries = []\<rparr>"
    by (simp add: add_result_def add_result_sanitize_def thenE_def blank_to_null_def ab
        add_result_checked_def add_result_name_rejected_def)
qed

theorem custom_name_check_exact_witness:
  "add_result_checked
     \<lparr>device_type_ID = Str ''3'', device_type = Str ''Lamp'', custom_name = Str ''lamp01'',
      on_off = Str ''1'', temperature = Null, volume = Null,
      batteries_included = Null, open_closed = Null, batteriesIncluded = Undefined\<rparr> (Some 7) \<noteq>
     Inr \<lparr>replies = [Json 400 name_message], queries = []\<rparr> \<and>
   delete_result_checked
     \<lparr>device_type_ID = Str ''3'', device_type = Str ''Lamp'', custom_name = Str ''lamp 1'',
      on_off = Str ''1'', temperature = Null, volume = Null,
      batteries_included = Null, open_closed = Null, batteriesIncluded = Undefined\<rparr> =
     Inr \<lparr>replies = [Json 400 name_message], queries = []\<rparr> \<and>
   regex_test spec_name_regex ''lamp01'' \<and> \<not> regex_test spec_name_regex ''lamp 1''"
proof -
  let ?good = "\<lparr>device_type_ID = Str ''3'', device_type = Str ''Lamp'',
      custom_name = Str ''lamp01'', on_off = Str ''1'', temperature = Null, volume = Null,
      batteries_included = Null, open_closed = Null, batteriesIncluded = Undefined\<rparr>"
  let ?bad = "\<lparr>device_type_ID = Str ''3'', device_type = Str ''Lamp'',
      custom_name = Str ''lamp 1'', on_off = Str ''1'', temperature = Null, volume = Null,
      batteries_included = Null, open_closed = Null, batteriesIncluded = Undefined\<rparr>"
  have g: "custom_name ?good = Str ''lamp01''" and b: "custom_name ?bad = Str ''lamp 1''"
    by simp_all
  have m: "regex_test spec_name_regex ''lamp01''" "\<not> regex_test spec_name_regex ''lamp 1''"
    by (simp_all add: spec_name_regex_iff in_class_def word_class_def)
  from custom_name_check_exact [OF g, of "Some 7"] custom_name_check_exact [OF b] m
  show ?thesis by (simp add: Let_def)
qed

text \<open>
  C10. A custom name that the create handler hands to the store (the parameter of the
  \<^verbatim>\<open>INSERT INTO devicenames\<close> statement) is a string of 5 to 16 characters, all of them
  in \<^verbatim>\<open>[A-Za-z0-9]\<close>: it holds no underscore and no space.
\<close>

theorem stored_custom_name_alnum:
  assumes "add_result b last_id = Inr out"
    and "InsertDeviceName x i \<in> set (queries out)"
  shows "\<exists>cn. x = Str cn \<and> (\<forall>c\<in>set cn. in_class alnum_class c) \<and>
           5 \<le> length cn \<and> length cn \<le> 16 \<and> CHR ''_'' \<notin> set cn \<and> CHR '' '' \<notin> set cn"
proof -
  from assms(1) obtain r where san: "add_result_sanitize b = Inr r"
    and chk: "add_result_checked r last_id = Inr out"
    by (auto simp: add_result_def thenE_def split: sum.splits)
  from add_result_sanitize_name [OF san] obtain s where cn: "custom_name r = Str (strip_special s)"
    by blast
  let ?cn = "strip_special s"
  from chk assms(2) have ok: "\<not> add_result_name_rejected ?cn" and x: "x = Str ?cn"
    by (auto simp: add_result_checked_Str [OF cn] split: if_splits option.splits)
  have chars: "in_class alnum_class c" if "c \<in> set ?cn" for c
  proof -
    from that have "in_class alnum_space c" by (rule strip_special_chars)
    moreover from ok that have "in_class word_class c"
      by (simp add: add_result_name_rejected_def validCustomNameRegex_iff)
    ultimately show ?thesis
      by (auto simp: in_class_def alnum_space_def word_class_def alnum_class_def)
  qed
  have "CHR ''_'' \<notin> set ?cn" "CHR '' '' \<notin> set ?cn"
    using chars [of "CHR ''_''"] chars [of "CHR '' ''"]
    by (auto simp: in_class_def alnum_class_def)
  moreover from ok have "5 \<le> length ?cn" "length ?cn \<le> 16"
    by (simp_all add: add_result_name_rejected_def)
  ultimately show ?thesis using x chars by blast
qed

theorem stored_custom_name_alnum_witness:
  "add_result
     \<lparr>device_type_ID = Undefined, device_type = Str ''Lamp'', custom_name = Str ''lamp_01'',
      on_off = Str ''1'', temperature = Str [], volume = Str [],
      batteries_included = Str [], open_closed = Str [], batteriesIncluded = Undefined\<rparr> (Some 7) =
     Inr \<lparr>replies = [],
          queries = [InsertDeviceType (Str ''Lamp'') (Str ''1'') Null Null Null Null,
                     SelectLastInsertId, InsertDeviceName (Str ''lamp01'') 7]\<rparr> \<and>
   (\<exists>cn. Str ''lamp01'' = Str cn \<and> (\<forall>c\<in>set cn. in_class alnum_class c) \<and>
           5 \<le> length cn \<and> length cn \<le> 16 \<and> CHR ''_'' \<notin> set cn \<and> CHR '' '' \<notin> set cn)"
proof -
  let ?b = "\<lparr>device_type_ID = Undefined, device_type = Str ''Lamp'', custom_name = Str ''lamp_01'',
      on_off = Str ''1'', temperature = Str [], volume = Str [],
      batteries_included = Str [], open_closed = Str [], batteriesIncluded = Undefined\<rparr>"
  let ?out = "\<lparr>replies = [],
          queries = [InsertDeviceType (Str ''Lamp'') (Str ''1'') Null Null Null Null,
                     SelectLastInsertId, InsertDeviceName (Str ''lamp01'') 7]\<rparr>"
  have run: "add_result ?b (Some 7) = Inr ?out"
    by (simp add: add_result_def add_result_sanitize_def thenE_def blank_to_null_def
        strip_special_def add_result_checked_def add_result_name_rejected_def
        validCustomNameRegex_iff add_result_isValid_always in_class_def alnum_space_def
        word_class_def)
  have mem: "InsertDeviceName (Str ''lamp01'') 7 \<in> set (queries ?out)" by simp
  from stored_custom_name_alnum [OF run mem] run show ?thesis by blast
qed

section \<open>Out-of-range fields and rejected names on the mutating routes\<close>

lemmas run_simps =
  thenE_def blank_to_null_def absent_to_null_def strip_special_def in_class_def
  alnum_space_def word_class_def validCustomNameRegex_iff isValid_always

text \<open>
  C1. The create handler at \<^verbatim>\<open>on_off = "5"\<close>: the field parses as 5, outside 0..1, and
  the request is not answered with an error; the three statements are issued with
  \<^verbatim>\<open>On_Off = '5'\<close>.
\<close>

theorem add_result_accepts_flag_out_of_range:
  "add_result
     \<lparr>device_type_ID = Undefined, device_type = Str ''Lamp'', custom_name = Str ''lamp01'',
      on_off = Str ''5'', temperature = Str [], volume = Str [],
      batteries_included = Str [], open_closed = Str [], batteriesIncluded = Undefined\<rparr> (Some 7) =
     Inr \<lparr>replies = [],
          queries = [InsertDeviceType (Str ''Lamp'') (Str ''5'') Null Null Null Null,
                     SelectLastInsertId, InsertDeviceName (Str ''lamp01'') 7]\<rparr> \<and>
   js_parseInt (Str ''5'') = Some 5"
  by (simp add: add_result_def add_result_sanitize_def add_result_checked_def
      add_result_name_rejected_def run_simps js_parseInt_def parseInt_string_def
      js_whitespace_def strip_sign_def radix_digit_def digit_val_def)

text \<open>
  C2. The update handler at \<^verbatim>\<open>custom_name = "ab"\<close>: the 500 with the schema/length
  message is sent, and both \<^verbatim>\<open>UPDATE\<close> statements are issued all the same.
\<close>

theorem update_result_rejected_name_still_updates:
  "update_result
     \<lparr>device_type_ID = Str ''3'', device_type = Str ''Speaker'', custom_name = Str ''ab'',
      on_off = Undefined, temperature = Undefined, volume = Str ''40'',
      batteries_included = Undefined, open_closed = Undefined, batteriesIncluded = Undefined\<rparr> =
     Inr \<lparr>replies = [Send 500 name_message],
          queries = [UpdateCustomName (Str ''ab'') (Str ''3''),
                     UpdateDeviceFields (Str ''Speaker'') Null Null (Str ''40'') Null Null
                       (Str ''3''),
                     SelectAll]\<rparr>"
  by (simp add: update_result_def update_result_sanitize_def update_result_checked_def
      update_result_name_rejected_def run_simps)

text \<open>
  C4. The update handler at \<^verbatim>\<open>volume = "150"\<close>: the field parses as 150, no error is
  sent, and the \<^verbatim>\<open>UPDATE devicetypes\<close> statement is issued with \<^verbatim>\<open>Volume = '150'\<close>.
\<close>

theorem update_result_accepts_volume_150:
  "update_result
     \<lparr>device_type_ID = Str ''3'', device_type = Str ''Speaker'', custom_name = Str ''speaker1'',
      on_off = Undefined, temperature = Undefined, volume = Str ''150'',
      batteries_included = Undefined, open_closed = Undefined, batteriesIncluded = Undefined\<rparr> =
     Inr \<lparr>replies = [],
          queries = [UpdateCustomName (Str ''speaker1'') (Str ''3''),
                     UpdateDeviceFields (Str ''Speaker'') Null Null (Str ''150'') Null Null
                       (Str ''3''),
                     SelectAll]\<rparr> \<and>
   js_parseInt (Str ''150'') = Some 150"
  by (simp add: update_result_def update_result_sanitize_def update_result_checked_def
      update_result_name_rejected_def run_simps js_parseInt_def parseInt_string_def
      js_whitespace_def strip_sign_def radix_digit_def digit_val_def)

section \<open>The derived display state\<close>

text \<open>
  C8. When the store returns a row, \<^verbatim>\<open>/display-status\<close> renders the status page with
  each \<open>valid\<close> flag true exactly when its column is not \<^verbatim>\<open>null\<close>, and each display
  state the boolean "the column is the number 1" when its flag is true and the number 0
  otherwise; the handler hands the store no statement that changes it.
\<close>

theorem display_status_flags:
  "\<exists>v. display_status False selectAll (r # rs) = Inr (Render ''devicestatus.ejs'' v) \<and>
     validOnOff v = (On_Off r \<noteq> SqlNull) \<and>
     validTemperature v = (Temperature r \<noteq> SqlNull) \<and>
     validVolume v = (Volume r \<noteq> SqlNull) \<and>
     validBatteriesIncluded v = (Batteries_Included r \<noteq> SqlNull) \<and>
     validOpenClosed v = (Open_Closed r \<noteq> SqlNull) \<and>
     deviceOn v = (if validOnOff v then JBool (On_Off r = SqlNum 1) else JNum 0) \<and>
     deviceOpen v = (if validOpenClosed v then JBool (Open_Closed r = SqlNum 1) else JNum 0) \<and>
     deviceBatteries v =
       (if validBatteriesIncluded v then JBool (Batteries_Included r = SqlNum 1) else JNum 0) \<and>
     filter is_mutation (display_status_queries i) = []"
  by (simp add: display_status_def display_status_queries_def Let_def)

theorem display_status_flags_witness:
  "\<exists>v. display_status False []
          [\<lparr>Device_Type_ID = SqlNum 7, Device_Type = SqlText ''Lamp'', On_Off = SqlNum 1,
            Temperature = SqlNull, Volume = SqlNull, Batteries_Included = SqlNum 0,
            Open_Closed = SqlNull, Custom_Name = SqlText ''lamp01''\<rparr>] =
        Inr (Render ''devicestatus.ejs'' v) \<and>
     validOnOff v \<and> \<not> validTemperature v \<and> \<not> validVolume v \<and>
     validBatteriesIncluded v \<and> \<not> validOpenClosed v \<and>
     deviceOn v = JBool True \<and> deviceOpen v = JNum 0 \<and> deviceBatteries v = JBool False"
proof -
  let ?r = "\<lparr>Device_Type_ID = SqlNum 7, Device_Type = SqlText ''Lamp'', On_Off = SqlNum 1,
        Temperature = SqlNull, Volume = SqlNull, Batteries_Included = SqlNum 0,
        Open_Closed = SqlNull, Custom_Name = SqlText ''lamp01''\<rparr>"
  from display_status_flags [of "[]" ?r "[]" Undefined]
  obtain v where run: "display_status False [] [?r] = Inr (Render ''devicestatus.ejs'' v)"
    and flags: "validOnOff v = (On_Off ?r \<noteq> SqlNull)"
      "validTemperature v = (Temperature ?r \<noteq> SqlNull)"
      "validVolume v = (Volume ?r \<noteq> SqlNull)"
      "validBatteriesIncluded v = (Batteries_Included ?r \<noteq> SqlNull)"
      "validOpenClosed v = (Open_Closed ?r \<noteq> SqlNull)"
    and states: "deviceOn v = (if validOnOff v then JBool (On_Off ?r = SqlNum 1) else JNum 0)"
      "deviceOpen v = (if validOpenClosed v then JBool (Open_Closed ?r = SqlNum 1) else JNum 0)"
      "deviceBatteries v =
         (if validBatteriesIncluded v then JBool (Batteries_Included ?r = SqlNum 1) else JNum 0)"
    by blast
  from flags have f: "validOnOff v" "\<not> validTemperature v" "\<not> validVolume v"
    "validBatteriesIncluded v" "\<not> validOpenClosed v" by simp_all
  from states f have "deviceOn v = JBool True" "deviceOpen v = JNum 0"
    "deviceBatteries v = JBool False" by simp_all
  with run f show ?thesis by blast
qed

section \<open>The comma-joined field string\<close>

lemma js_split_comma_nonempty: "js_split_comma s \<noteq> []"
  by (induction s) (auto split: list.splits)

lemma join_split_comma: "join_comma (js_split_comma s) = s"
proof (induction s)
  case Nil
  show ?case by simp
next
  case (Cons c s)
  show ?case
  proof (cases "js_split_comma s")
    case Nil
    with js_split_comma_nonempty show ?thesis by blast
  next
    case (Cons p ps)
    with Cons.IH show ?thesis by (cases ps) auto
  qed
qed

lemma split_comma_pieces: "p \<in> set (js_split_comma s) \<Longrightarrow> CHR '','' \<notin> set p"
  by (induction s arbitrary: p) (auto split: if_splits list.splits)

lemma length_split_comma: "length (js_split_comma s) = Suc (count_list s (CHR '',''))"
  by (induction s) (auto split: list.splits simp: js_split_comma_nonempty)

text \<open>
  C9. On the confirm-delete and delete routes, a \<open>device_type_ID\<close> field that holds a
  comma is split at its commas and components 0 to 7 become \<open>device_type_ID\<close>,
  \<open>custom_name\<close>, \<open>device_type\<close>, \<open>on_off\<close>, \<open>batteries_included\<close>, \<open>open_closed\<close>,
  \<open>volume\<close> and \<open>temperature\<close>, in this order; with no comma the body is used as given.
  The components are the comma-free pieces of the field: joined by commas they give it
  back.
\<close>

theorem comma_fields_positional:
  assumes "device_type_ID b = Str s"
  shows "(CHR '','' \<in> set s \<longrightarrow>
           (let parts = js_split_comma s;
                p = b\<lparr>device_type_ID := element parts 0, custom_name := element parts 1,
                      device_type := element parts 2, on_off := element parts 3,
                      batteries_included := element parts 4, open_closed := element parts 5,
                      volume := element parts 6, temperature := element parts 7\<rparr>
            in confirm_delete_parse b = Inr p \<and> delete_result_parse b = Inr p)) \<and>
         (CHR '','' \<notin> set s \<longrightarrow> confirm_delete_parse b = Inr b \<and> delete_result_parse b = Inr b) \<and>
         join_comma (js_split_comma s) = s \<and>
         (\<forall>p\<in>set (js_split_comma s). CHR '','' \<notin> set p) \<and>
         (\<forall>k<length (js_split_comma s). element (js_split_comma s) k = Str (js_split_comma s ! k))"
  using assms
  by (simp add: confirm_delete_parse_def delete_result_parse_def Let_def join_split_comma
      split_comma_pieces element_def)

theorem comma_fields_positional_witness:
  "confirm_delete_parse
     \<lparr>device_type_ID = Str ''7,lamp01,Lamp,1,,,,'', device_type = Undefined,
      custom_name = Undefined, on_off = Undefined, temperature = Undefined,
      volume = Undefined, batteries_included = Undefined, open_closed = Undefined,
      batteriesIncluded = Undefined\<rparr> =
   Inr \<lparr>device_type_ID = Str ''7'', device_type = Str ''Lamp'', custom_name = Str ''lamp01'',
        on_off = Str ''1'', temperature = Str [], volume = Str [],
        batteries_included = Str [], open_closed = Str [], batteriesIncluded = Undefined\<rparr> \<and>
   delete_result_parse
     \<lparr>device_type_ID = Str ''7'', device_type = Str ''Lamp'', custom_name = Str ''lamp01'',
      on_off = Str ''1'', temperature = Str [], volume = Str [],
      batteries_included = Str [], open_closed = Str [], batteriesIncluded = Undefined\<rparr> =
   Inr \<lparr>device_type_ID = Str ''7'', device_type = Str ''Lamp'', custom_name = Str ''lamp01'',
        on_off = Str ''1'', temperature = Str [], volume = Str [],
        batteries_included = Str [], open_closed = Str [], batteriesIncluded = Undefined\<rparr>"
proof -
  let ?b = "\<lparr>device_type_ID = Str ''7,lamp01,Lamp,1,,,,'', device_type = Undefined,
      custom_name = Undefined, on_off = Undefined, temperature = Undefined,
      volume = Undefined, batteries_included = Undefined, open_closed = Undefined,
      batteriesIncluded = Undefined\<rparr>"
  let ?d = "\<lparr>device_type_ID = Str ''7'', device_type = Str ''Lamp'', custom_name = Str ''lamp01'',
      on_off = Str ''1'', temperature = Str [], volume = Str [],
      batteries_included = Str [], open_closed = Str [], batteriesIncluded = Undefined\<rparr>"
  have b: "device_type_ID ?b = Str ''7,lamp01,Lamp,1,,,,''" by simp
  have d: "device_type_ID ?d = Str ''7''" by simp
  from comma_fields_positional [OF b] comma_fields_positional [OF d]
  show ?thesis by (simp add: Let_def element_def)
qed

section \<open>The sanitizer, route by route\<close>

lemmas sanitize_defs =
  add_result_sanitize_def confirm_delete_sanitize_def delete_result_sanitize_def
  retrieve_update_record_sanitize_def update_result_sanitize_def

text \<open>
  C5. The update handler at \<^verbatim>\<open>on_off = ""\<close>: the sanitizer keeps the field as the
  empty string, and the \<^verbatim>\<open>UPDATE devicetypes\<close> statement is issued with \<^verbatim>\<open>On_Off = ''\<close>.
  The create handler maps the same empty field to \<^verbatim>\<open>null\<close>.
\<close>

theorem update_result_keeps_empty_field:
  "update_result_sanitize
     \<lparr>device_type_ID = Str ''3'', device_type = Str ''Lamp'', custom_name = Str ''lamp01'',
      on_off = Str [], temperature = Undefined, volume = Undefined,
      batteries_included = Undefined, open_closed = Undefined, batteriesIncluded = Undefined\<rparr> =
   Inr \<lparr>device_type_ID = Str ''3'', device_type = Str ''Lamp'', custom_name = Str ''lamp01'',
        on_off = Str [], temperature = Null, volume = Null,
        batteries_included = Null, open_closed = Null, batteriesIncluded = Undefined\<rparr> \<and>
   update_result
     \<lparr>device_type_ID = Str ''3'', device_type = Str ''Lamp'', custom_name = Str ''lamp01'',
      on_off = Str [], temperature = Undefined, volume = Undefined,
      batteries_included = Undefined, open_closed = Undefined, batteriesIncluded = Undefined\<rparr> =
   Inr \<lparr>replies = [],
        queries = [UpdateCustomName (Str ''lamp01'') (Str ''3''),
                   UpdateDeviceFields (Str ''Lamp'') (Str []) Null Null Null Null (Str ''3''),
                   SelectAll]\<rparr> \<and>
   add_result_sanitize
     \<lparr>device_type_ID = Undefined, device_type = Str ''Lamp'', custom_name = Str ''lamp01'',
      on_off = Str [], temperature = Str [], volume = Str [],
      batteries_included = Str [], open_closed = Str [], batteriesIncluded = Undefined\<rparr> =
   Inr \<lparr>device_type_ID = Undefined, device_type = Str ''Lamp'', custom_name = Str ''lamp01'',
        on_off = Null, temperature = Null, volume = Null,
        batteries_included = Null, open_closed = Null, batteriesIncluded = Undefined\<rparr>"
  by (simp add: update_result_def update_result_checked_def update_result_name_rejected_def
      sanitize_defs run_simps)

text \<open>
  C6. One body, with \<^verbatim>\<open>temperature = ""\<close>, through the sanitizer of each route: the
  create, confirm-delete, delete and retrieve-update routes give \<^verbatim>\<open>null\<close> for the field,
  the update route gives the empty string.
\<close>

theorem update_result_sanitize_differs_on_empty:
  "add_result_sanitize
     \<lparr>device_type_ID = Str ''3'', device_type = Str ''Lamp'', custom_name = Str ''lamp01'',
      on_off = Str ''1'', temperature = Str [], volume = Str ''5'',
      batteries_included = Str ''0'', open_closed = Str ''1'', batteriesIncluded = Undefined\<rparr> =
   Inr \<lparr>device_type_ID = Str ''3'', device_type = Str ''Lamp'', custom_name = Str ''lamp01'',
        on_off = Str ''1'', temperature = Null, volume = Str ''5'',
        batteries_included = Str ''0'', open_closed = Str ''1'', batteriesIncluded = Undefined\<rparr> \<and>
   confirm_delete_sanitize
     \<lparr>device_type_ID = Str ''3'', device_type = Str ''Lamp'', custom_name = Str ''lamp01'',
      on_off = Str ''1'', temperature = Str [], volume = Str ''5'',
      batteries_included = Str ''0'', open_closed = Str ''1'', batteriesIncluded = Undefined\<rparr> =
   Inr \<lparr>device_type_ID = Str ''3'', device_type = Str ''Lamp'', custom_name = Str ''lamp01'',
        on_off = Str ''1'', temperature = Null, volume = Str ''5'',
        batteries_included = Str ''0'', open_closed = Str ''1'', batteriesIncluded = Undefined\<rparr> \<and>
   delete_result_sanitize
     \<lparr>device_type_ID = Str ''3'', device_type = Str ''Lamp'', custom_name = Str ''lamp01'',
      on_off = Str ''1'', temperature = Str [], volume = Str ''5'',
      batteries_included = Str ''0'', open_closed = Str ''1'', batteriesIncluded = Undefined\<rparr> =
   Inr \<lparr>device_type_ID = Str ''3'', device_type = Str ''Lamp'', custom_name = Str ''lamp01'',
        on_off = Str ''1'', temperature = Null, volume = Str ''5'',
        batteries_included = Str ''0'', open_closed = Str ''1'', batteriesIncluded = Undefined\<rparr> \<and>
   retrieve_update_record_sanitize
     \<lparr>device_type_ID = Str ''3'', device_type = Str ''Lamp'', custom_name = Str ''lamp01'',
      on_off = Str ''1'', temperature = Str [], volume = Str ''5'',
      batteries_included = Str ''0'', open_closed = Str ''1'', batteriesIncluded = Undefined\<rparr> =
   Inr \<lparr>device_type_ID = Str ''3'', device_type = Str ''Lamp'', custom_name = Str ''lamp01'',
        on_off = Str ''1'', temperature = Null, volume = Str ''5'',
        batteries_included = Str ''0'', open_closed = Str ''1'', batteriesIncluded = Undefined\<rparr> \<and>
   update_result_sanitize
     \<lparr>device_type_ID = Str ''3'', device_type = Str ''Lamp'', custom_name = Str ''lamp01'',
      on_off = Str ''1'', temperature = Str [], volume = Str ''5'',
      batteries_included = Str ''0'', open_closed = Str ''1'', batteriesIncluded = Undefined\<rparr> =
   Inr \<lparr>device_type_ID = Str ''3'', device_type = Str ''Lamp'', custom_name = Str ''lamp01'',
        on_off = Str ''1'', temperature = Str [], volume = Str ''5'',
        batteries_included = Str ''0'', open_closed = Str ''1'', batteriesIncluded = Undefined\<rparr>"
  by (simp add: sanitize_defs run_simps)

section \<open>Sanitizing twice\<close>

text \<open>
  C7, as the claim states it, fails: an optional field of special characters only is
  sanitized to the empty string, and the empty string to \<^verbatim>\<open>null\<close>.
\<close>

theorem sanitize_twice_counterexample:
  "blank_to_null (Str ''!!'') = Inr (Str []) \<and>
   thenE (blank_to_null (Str ''!!'')) blank_to_null = Inr Null \<and>
   thenE (blank_to_null (Str ''!!'')) blank_to_null \<noteq> blank_to_null (Str ''!!'')"
  by (simp add: run_simps)

text \<open>
  C7, amended. Removing the characters outside \<^verbatim>\<open>[A-Za-z0-9 ]\<close> is idempotent, so a
  required field sanitized twice is the field sanitized once; an optional field that
  was sanitized to a non-empty string (on the update route: to any string) is left
  unchanged by sanitizing it again.
\<close>

theorem sanitize_twice_on_strings:
  "strip_special (strip_special s) = strip_special s \<and>
   thenE (js_replace_special v) js_replace_special = js_replace_special v \<and>
   (blank_to_null v = Inr (Str t) \<and> t \<noteq> [] \<longrightarrow> blank_to_null (Str t) = Inr (Str t)) \<and>
   (absent_to_null v = Inr (Str t) \<longrightarrow> absent_to_null (Str t) = Inr (Str t))"
proof (intro conjI impI)
  show "strip_special (strip_special s) = strip_special s" by (rule strip_special_twice)
  show "thenE (js_replace_special v) js_replace_special = js_replace_special v"
    by (cases v) (simp_all add: thenE_def strip_special_twice)
next
  assume "blank_to_null v = Inr (Str t) \<and> t \<noteq> []"
  then show "blank_to_null (Str t) = Inr (Str t)"
    by (cases v) (auto simp: blank_to_null_def strip_special_twice split: if_splits)
next
  assume "absent_to_null v = Inr (Str t)"
  then show "absent_to_null (Str t) = Inr (Str t)"
    by (cases v) (auto simp: absent_to_null_def strip_special_twice split: if_splits)
qed

theorem sanitize_twice_on_strings_witness:
  "blank_to_null (Str ''a_b'') = Inr (Str ''ab'') \<and> blank_to_null (Str ''ab'') = Inr (Str ''ab'') \<and>
   absent_to_null (Str ''a_b'') = Inr (Str ''ab'') \<and> absent_to_null (Str ''ab'') = Inr (Str ''ab'')"
proof -
  have b: "blank_to_null (Str ''a_b'') = Inr (Str ''ab'')"
    and a: "absent_to_null (Str ''a_b'') = Inr (Str ''ab'')"
    by (simp_all add: run_simps)
  from sanitize_twice_on_strings [of _ "Str ''a_b''" "''ab''"] a b show ?thesis by simp
qed

end
